theory Spec2Isabelle
  imports Main "HOL-Library.Word"
begin

section \<open>The licence subsystem of go-ai-coder (internal/license/check.go)\<close>

text \<open>
  The package keeps one \<open>License\<close> object behind a pointer and guards it with a mutex.
  Every method is modelled as a function from the object before the call to the result
  and the object after the call. The release targets of the Makefile are amd64 and arm64,
  so Go's \<open>int\<close> is a 64-bit two's complement integer: \<open>64 word\<close>, read with \<open>sint\<close>.
  Lines written to standard output by \<open>Initialize\<close> are not part of the model.
\<close>

subsection \<open>Data\<close>

datatype Tier = FreeTier | ProTier | EnterpriseTier

type_synonym go_int = "64 word"

text \<open>
  \<open>time.Time\<close> is a reading of the monotonic clock in nanoseconds and
  \<open>time.Duration\<close> a number of nanoseconds.
\<close>

type_synonym Time = int

record License =
  Tier :: Tier
  Key :: string
  DailyRuns :: go_int
  MaxRuns :: go_int
  LastReset :: Time

definition FreeMaxRunsPerDay :: go_int where
  "FreeMaxRunsPerDay = 5"

definition FreeMaxTokensPerRun :: go_int where
  "FreeMaxTokensPerRun = 1000"

definition ProMaxRunsPerDay :: go_int where
  "ProMaxRunsPerDay = 100"

definition ProMaxTokensPerRun :: go_int where
  "ProMaxTokensPerRun = 10000"

definition EnterpriseMaxRuns :: go_int where
  "EnterpriseMaxRuns = - 1"

definition EnterpriseMaxTokens :: go_int where
  "EnterpriseMaxTokens = - 1"

subsection \<open>Library functions the package calls\<close>

text \<open>\<open>strings.HasPrefix\<close>: \<open>len(s) >= len(prefix) && s[:len(prefix)] == prefix\<close>.\<close>

definition HasPrefix :: "string \<Rightarrow> string \<Rightarrow> bool" where
  "HasPrefix s p = (length p \<le> length s \<and> take (length p) s = p)"

text \<open>\<open>time.Hour\<close> in nanoseconds, and the range of \<open>time.Duration\<close> (an int64).\<close>

definition Hour :: int where
  "Hour = 3600000000000"

definition minDuration :: int where
  "minDuration = - (2 ^ 63)"

definition maxDuration :: int where
  "maxDuration = 2 ^ 63 - 1"

text \<open>
  \<open>time.Since(t)\<close> with the clock reading \<open>now\<close>: the difference, saturated to the range
  of a Duration.
\<close>

definition Since :: "Time \<Rightarrow> Time \<Rightarrow> int" where
  "Since now t =
     (let d = now - t in
      if maxDuration < d then maxDuration
      else if d < minDuration then minDuration
      else d)"

text \<open>The verb \<open>%d\<close> of \<open>fmt.Sprintf\<close> on an \<open>int\<close>: signed decimal.\<close>

definition digit :: "nat \<Rightarrow> char" where
  "digit n = ''0123456789'' ! n"

fun digits :: "nat \<Rightarrow> string" where
  "digits n = (if n < 10 then [digit n] else digits (n div 10) @ [digit (n mod 10)])"

declare digits.simps [simp del]

definition fmt_d :: "go_int \<Rightarrow> string" where
  "fmt_d w =
     (if sint w < 0 then CHR ''-'' # digits (nat (- sint w)) else digits (nat (sint w)))"

subsection \<open>Tier resolution\<close>

definition validateKey :: "string \<Rightarrow> bool" where
  "validateKey key =
     (if HasPrefix key ''PRO_'' \<and> 20 \<le> length key then True
      else if HasPrefix key ''ENT_'' \<and> 20 \<le> length key then True
      else False)"

text \<open>
  The function passed to \<open>once.Do\<close> in \<open>Initialize\<close>; \<open>key\<close> is the value of the
  environment variable LICENSE_KEY and \<open>now\<close> the reading of \<open>time.Now()\<close>. The
  composite literal leaves \<open>Tier\<close>, \<open>DailyRuns\<close> and \<open>MaxRuns\<close> at their zero values.
\<close>

definition newLicense :: "string \<Rightarrow> Time \<Rightarrow> License" where
  "newLicense key now =
     (let l = \<lparr>Tier = FreeTier, Key = key, DailyRuns = 0, MaxRuns = 0, LastReset = now\<rparr> in
      if key = [] then l\<lparr>Tier := FreeTier, MaxRuns := FreeMaxRunsPerDay\<rparr>
      else if validateKey key then
        (if HasPrefix key ''ENT_''
         then l\<lparr>Tier := EnterpriseTier, MaxRuns := EnterpriseMaxRuns\<rparr>
         else l\<lparr>Tier := ProTier, MaxRuns := ProMaxRunsPerDay\<rparr>)
      else l\<lparr>Tier := FreeTier, MaxRuns := FreeMaxRunsPerDay\<rparr>)"

text \<open>
  \<open>Initialize\<close>: \<open>cur\<close> is the object \<open>currentLicense\<close> points to, \<open>None\<close> while
  \<open>once\<close> has not run. The result is the object the returned pointer refers to.
\<close>

definition Initialize :: "string \<Rightarrow> Time \<Rightarrow> License option \<Rightarrow> License" where
  "Initialize key now cur = (case cur of None \<Rightarrow> newLicense key now | Some l \<Rightarrow> l)"

subsection \<open>Methods\<close>

text \<open>
  \<open>CanRun\<close> reads the clock twice: \<open>t1\<close> inside \<open>time.Since\<close> and \<open>t2\<close> in the
  assignment to \<open>LastReset\<close>.
\<close>

definition limit_message :: "go_int \<Rightarrow> go_int \<Rightarrow> string" where
  "limit_message used lim =
     ''Daily limit reached ('' @ fmt_d used @ ''/'' @ fmt_d lim @
     '' runs). Upgrade at https://bakerstreetproject221B.store/pricing''"

definition CanRun :: "Time \<Rightarrow> Time \<Rightarrow> License \<Rightarrow> (bool \<times> string) \<times> License" where
  "CanRun t1 t2 l =
     (let l1 = (if 24 * Hour < Since t1 (LastReset l)
                then l\<lparr>DailyRuns := 0, LastReset := t2\<rparr> else l) in
      if Tier l1 = EnterpriseTier then ((True, []), l1\<lparr>DailyRuns := DailyRuns l1 + 1\<rparr>)
      else if sint (MaxRuns l1) \<le> sint (DailyRuns l1)
        then ((False, limit_message (DailyRuns l1) (MaxRuns l1)), l1)
      else ((True, []), l1\<lparr>DailyRuns := DailyRuns l1 + 1\<rparr>))"

definition GetMaxTokens :: "License \<Rightarrow> go_int \<times> License" where
  "GetMaxTokens l =
     (case Tier l of
        EnterpriseTier \<Rightarrow> (EnterpriseMaxTokens, l)
      | ProTier \<Rightarrow> (ProMaxTokensPerRun, l)
      | _ \<Rightarrow> (FreeMaxTokensPerRun, l))"

definition GetTierName :: "License \<Rightarrow> string \<times> License" where
  "GetTierName l =
     (case Tier l of
        EnterpriseTier \<Rightarrow> (''Enterprise'', l)
      | ProTier \<Rightarrow> (''Pro'', l)
      | _ \<Rightarrow> (''Free'', l))"

definition GetStatus :: "License \<Rightarrow> string \<times> License" where
  "GetStatus l =
     (if Tier l = EnterpriseTier then
        (let (name, l1) = GetTierName l in
         (''License: '' @ name @ '' | Runs today: '' @ fmt_d (DailyRuns l1) @ '' | Unlimited'',
          l1))
      else
        (let (name, l1) = GetTierName l;
             (tokens, l2) = GetMaxTokens l1 in
         (''License: '' @ name @ '' | Runs: '' @ fmt_d (DailyRuns l1) @ ''/'' @
          fmt_d (MaxRuns l1) @ '' | Tokens/run: '' @ fmt_d tokens, l2)))"

subsection \<open>Sequences of calls\<close>

text \<open>Consecutive \<open>CanRun\<close> calls, as in the loops of check_test.go, with their results.\<close>

fun CanRuns :: "(Time \<times> Time) list \<Rightarrow> License \<Rightarrow> (bool \<times> string) list \<times> License" where
  "CanRuns [] l = ([], l)"
| "CanRuns (t # ts) l =
     (let (r, l1) = CanRun (fst t) (snd t) l;
          (rs, l2) = CanRuns ts l1
      in (r # rs, l2))"

text \<open>Any sequence of method calls on the object.\<close>

datatype call = CallCanRun Time Time | CallGetMaxTokens | CallGetTierName | CallGetStatus

fun step :: "call \<Rightarrow> License \<Rightarrow> License" where
  "step (CallCanRun t1 t2) l = snd (CanRun t1 t2 l)"
| "step CallGetMaxTokens l = snd (GetMaxTokens l)"
| "step CallGetTierName l = snd (GetTierName l)"
| "step CallGetStatus l = snd (GetStatus l)"

definition run :: "call list \<Rightarrow> License \<Rightarrow> License" where
  "run cs l = fold step cs l"


text \<open>The triple of tier and limits a credential resolves to.\<close>

definition resolveTier :: "License \<Rightarrow> Tier \<times> go_int \<times> go_int" where
  "resolveTier l = (Tier l, MaxRuns l, fst (GetMaxTokens l))"

section \<open>Auxiliary facts\<close>

subsection \<open>Clock and machine integers\<close>

lemma Since_gt: "24 * Hour < Since t1 t0 \<longleftrightarrow> 24 * Hour < t1 - t0"
  by (simp add: Since_def Hour_def maxDuration_def minDuration_def Let_def)

lemma sint_inc:
  fixes w :: go_int
  assumes "sint w < 2 ^ 63 - 1"
  shows "sint (w + 1) = sint w + 1"
proof -
  have lo: "- (2 ^ 63) \<le> sint w"
    using sint_ge [of w] by simp
  have "sint (w + 1) = signed_take_bit 63 (sint w + 1)"
    by (simp add: sint_word_ariths)
  also have "\<dots> = sint w + 1"
    using assms lo by (intro signed_take_bit_int_eq_self) auto
  finally show ?thesis .
qed

lemma sint_word_of_nat:
  assumes "n < 2 ^ 63"
  shows "sint (of_nat n :: go_int) = int n"
proof -
  have "sint (of_nat n :: go_int) = signed_take_bit 63 (int n)"
    using signed_of_nat [where 'b = 64 and 'a = int, of n] by simp
  also have "\<dots> = int n"
    using assms by (intro signed_take_bit_int_eq_self) auto
  finally show ?thesis .
qed

lemma fmt_d_5: "fmt_d 5 = ''5''"
  by (simp add: fmt_d_def digits.simps digit_def)

lemma limit_message_5:
  "limit_message 5 5 =
     ''Daily limit reached (5/5 runs). Upgrade at https://bakerstreetproject221B.store/pricing''"
  by (simp add: limit_message_def fmt_d_5)

subsection \<open>Fields no method assigns\<close>

lemma CanRun_Tier: "Tier (snd (CanRun t1 t2 l)) = Tier l"
  by (simp add: CanRun_def Let_def)

lemma CanRun_Key: "Key (snd (CanRun t1 t2 l)) = Key l"
  by (simp add: CanRun_def Let_def)

lemma CanRun_MaxRuns: "MaxRuns (snd (CanRun t1 t2 l)) = MaxRuns l"
  by (simp add: CanRun_def Let_def)

lemma GetMaxTokens_snd: "snd (GetMaxTokens l) = l"
  by (simp add: GetMaxTokens_def split: Tier.split)

lemma GetTierName_snd: "snd (GetTierName l) = l"
  by (simp add: GetTierName_def split: Tier.split)

lemma GetStatus_snd: "snd (GetStatus l) = l"
  by (simp add: GetStatus_def GetTierName_def GetMaxTokens_def split: Tier.split)

lemma step_frame:
  "Tier (step c l) = Tier l \<and> Key (step c l) = Key l \<and> MaxRuns (step c l) = MaxRuns l"
  by (cases c)
    (simp_all add: CanRun_Tier CanRun_Key CanRun_MaxRuns GetMaxTokens_snd GetTierName_snd
      GetStatus_snd)

lemma run_frame:
  "Tier (run cs l) = Tier l \<and> Key (run cs l) = Key l \<and> MaxRuns (run cs l) = MaxRuns l"
  unfolding run_def by (induction cs arbitrary: l) (simp_all add: step_frame)

subsection \<open>\<open>CanRun\<close> by cases\<close>

lemma CanRun_no_reset:
  assumes "t1 - LastReset l \<le> 24 * Hour"
  shows "CanRun t1 t2 l =
     (if Tier l = EnterpriseTier then ((True, []), l\<lparr>DailyRuns := DailyRuns l + 1\<rparr>)
      else if sint (MaxRuns l) \<le> sint (DailyRuns l)
        then ((False, limit_message (DailyRuns l) (MaxRuns l)), l)
      else ((True, []), l\<lparr>DailyRuns := DailyRuns l + 1\<rparr>))"
  using assms by (simp add: CanRun_def Since_gt Let_def)

lemma CanRun_enterprise:
  assumes "Tier l = EnterpriseTier"
  shows "CanRun t1 t2 l =
     ((True, []),
      (if 24 * Hour < t1 - LastReset l
       then l\<lparr>DailyRuns := 0 + 1, LastReset := t2\<rparr>
       else l\<lparr>DailyRuns := DailyRuns l + 1\<rparr>))"
  using assms by (simp add: CanRun_def Since_gt Let_def)

lemma CanRuns_Cons_fst:
  "fst (CanRuns (t # ts) l) =
     fst (CanRun (fst t) (snd t) l) # fst (CanRuns ts (snd (CanRun (fst t) (snd t) l)))"
  by (simp add: case_prod_beta)

lemma CanRuns_Cons_snd:
  "snd (CanRuns (t # ts) l) = snd (CanRuns ts (snd (CanRun (fst t) (snd t) l)))"
  by (simp add: case_prod_beta)

lemma CanRuns_free:
  assumes "Tier l = FreeTier" and "MaxRuns l = 5" and "DailyRuns l = of_nat k" and "k \<le> 5"
    and "\<forall>t\<in>set ts. fst t - LastReset l \<le> 24 * Hour"
  shows "CanRuns ts l =
     (map (\<lambda>i. if k + i < 5 then (True, []) else (False, limit_message 5 5)) [0..<length ts],
      l\<lparr>DailyRuns := of_nat (min 5 (k + length ts))\<rparr>)"
  using assms
proof (induction ts arbitrary: k l)
  case Nil
  then show ?case by simp
next
  case (Cons t ts)
  from Cons.prems have nr: "fst t - LastReset l \<le> 24 * Hour" by simp
  show ?case
  proof (cases "k < 5")
    case True
    define l' where "l' = l\<lparr>DailyRuns := of_nat (Suc k)\<rparr>"
    from True have sk: "sint (of_nat k :: go_int) = int k"
      by (intro sint_word_of_nat) simp
    have one: "CanRun (fst t) (snd t) l = ((True, []), l')"
      using Cons.prems True sk by (simp add: CanRun_no_reset [OF nr] l'_def)
    have rest: "CanRuns ts l' =
      (map (\<lambda>i. if Suc k + i < 5 then (True, []) else (False, limit_message 5 5))
         [0..<length ts],
       l'\<lparr>DailyRuns := of_nat (min 5 (Suc k + length ts))\<rparr>)"
      using Cons.prems True by (intro Cons.IH) (simp_all add: l'_def)
    have last: "l'\<lparr>DailyRuns := of_nat (min 5 (Suc k + length ts))\<rparr> =
        l\<lparr>DailyRuns := of_nat (min 5 (k + length (t # ts)))\<rparr>"
      by (simp add: l'_def)
    have "CanRuns (t # ts) l =
      ((True, []) # map (\<lambda>i. if Suc k + i < 5 then (True, []) else (False, limit_message 5 5))
         [0..<length ts],
       l\<lparr>DailyRuns := of_nat (min 5 (k + length (t # ts)))\<rparr>)"
      by (simp only: CanRuns.simps one Let_def prod.case rest last)
    also have "(True, []) # map (\<lambda>i. if Suc k + i < 5 then (True, []) else (False, limit_message 5 5))
         [0..<length ts] =
       map (\<lambda>i. if k + i < 5 then (True, []) else (False, limit_message 5 5))
         [0..<length (t # ts)]"
      using True by (simp add: map_upt_Suc del: upt_Suc)
    finally show ?thesis .
  next
    case False
    with Cons.prems have k5: "k = 5" by simp
    have one: "CanRun (fst t) (snd t) l = ((False, limit_message 5 5), l)"
      using Cons.prems k5 by (simp add: CanRun_no_reset [OF nr])
    have rest: "CanRuns ts l =
      (map (\<lambda>i. if k + i < 5 then (True, []) else (False, limit_message 5 5)) [0..<length ts],
       l\<lparr>DailyRuns := of_nat (min 5 (k + length ts))\<rparr>)"
      using Cons.prems by (intro Cons.IH) simp_all
    show ?thesis
      using k5 by (simp add: one rest map_upt_Suc del: upt_Suc)
  qed
qed

lemma CanRuns_enterprise:
  assumes "Tier l = EnterpriseTier"
  shows "fst (CanRuns ts l) = replicate (length ts) (True, [])"
  using assms
proof (induction ts arbitrary: l)
  case Nil
  then show ?case by simp
next
  case (Cons t ts)
  have "Tier (snd (CanRun (fst t) (snd t) l)) = EnterpriseTier"
    using Cons.prems by (simp add: CanRun_Tier)
  then have "fst (CanRuns ts (snd (CanRun (fst t) (snd t) l))) =
      replicate (length ts) (True, [])"
    by (rule Cons.IH)
  moreover have "fst (CanRun (fst t) (snd t) l) = (True, [])"
    using Cons.prems by (simp add: CanRun_enterprise)
  ultimately show ?case
    by (simp only: CanRuns_Cons_fst length_Cons replicate_Suc)
qed

lemma CanRuns_enterprise_count:
  assumes "Tier l = EnterpriseTier" and "\<forall>t\<in>set ts. fst t - LastReset l \<le> 24 * Hour"
  shows "snd (CanRuns ts l) = l\<lparr>DailyRuns := DailyRuns l + of_nat (length ts)\<rparr>"
  using assms
proof (induction ts arbitrary: l)
  case Nil
  then show ?case by simp
next
  case (Cons t ts)
  define l' where "l' = l\<lparr>DailyRuns := DailyRuns l + 1\<rparr>"
  have one: "snd (CanRun (fst t) (snd t) l) = l'"
    using Cons.prems by (simp add: CanRun_enterprise l'_def)
  have "snd (CanRuns ts l') = l'\<lparr>DailyRuns := DailyRuns l' + of_nat (length ts)\<rparr>"
    using Cons.prems by (intro Cons.IH) (simp_all add: l'_def)
  also have "\<dots> = l\<lparr>DailyRuns := DailyRuns l + of_nat (length (t # ts))\<rparr>"
    by (simp add: l'_def)
  finally show ?case
    by (simp only: CanRuns_Cons_snd one)
qed

subsection \<open>The sign of the counter\<close>








subsection \<open>Two serialised calls on the last slot\<close>

text \<open>
  The mutex makes two racing \<open>CanRun\<close> calls run one after the other. With one slot
  left and no reset due, the first of two consecutive calls is allowed and the second
  denied.
\<close>

lemma CanRun_last_slot_serial:
  assumes "Tier l \<noteq> EnterpriseTier" and "sint (DailyRuns l) + 1 = sint (MaxRuns l)"
    and "a - LastReset l \<le> 24 * Hour" and "b - LastReset l \<le> 24 * Hour"
  shows "fst (CanRuns [(a, a'), (b, b')] l) =
     [(True, []), (False, limit_message (MaxRuns l) (MaxRuns l))]"
proof -
  have "sint (MaxRuns l) < 2 ^ 63"
    using sint_lt [of "MaxRuns l"] by simp
  with assms(2) have "sint (DailyRuns l) < 2 ^ 63 - 1" by simp
  then have "sint (DailyRuns l + 1) = sint (DailyRuns l) + 1"
    by (rule sint_inc)
  with assms(2) have "sint (DailyRuns l + 1) = sint (MaxRuns l)" by simp
  then have eq: "DailyRuns l + 1 = MaxRuns l"
    by (rule signed_word_eqI [where 'a = int])
  have one: "CanRun a a' l = ((True, []), l\<lparr>DailyRuns := MaxRuns l\<rparr>)"
    using assms by (simp add: CanRun_no_reset eq)
  have two: "CanRun b b' (l\<lparr>DailyRuns := MaxRuns l\<rparr>) =
      ((False, limit_message (MaxRuns l) (MaxRuns l)), l\<lparr>DailyRuns := MaxRuns l\<rparr>)"
    using assms by (simp add: CanRun_no_reset)
  show ?thesis
    by (simp add: one two)
qed

subsection \<open>Tier resolution\<close>

lemma validateKey_iff:
  "validateKey key \<longleftrightarrow> (HasPrefix key ''PRO_'' \<or> HasPrefix key ''ENT_'') \<and> 20 \<le> length key"
  by (auto simp: validateKey_def)

lemma validateKey_nonempty: "validateKey key \<Longrightarrow> key \<noteq> []"
  by (auto simp: validateKey_iff)

lemma resolveTier_newLicense:
  "resolveTier (newLicense key t) =
     (if validateKey key
      then if HasPrefix key ''ENT_'' then (EnterpriseTier, - 1, - 1) else (ProTier, 100, 10000)
      else (FreeTier, 5, 1000))"
proof (cases "validateKey key")
  case True
  then have "key \<noteq> []" by (rule validateKey_nonempty)
  with True show ?thesis
    by (simp add: resolveTier_def newLicense_def GetMaxTokens_def Let_def
        ProMaxRunsPerDay_def ProMaxTokensPerRun_def EnterpriseMaxRuns_def
        EnterpriseMaxTokens_def)
next
  case False
  then show ?thesis
    by (simp add: resolveTier_def newLicense_def GetMaxTokens_def Let_def
        FreeMaxRunsPerDay_def FreeMaxTokensPerRun_def)
qed

section \<open>Tier resolution and the read-only methods\<close>

text \<open>
  C5. The empty credential resolves to Free with the Free limits. The 20-character
  credential \<open>PRO_1234567890123456\<close> is valid and resolves to Pro; \<open>PRO_123\<close> is invalid
  and resolves to Free; \<open>ENT_1234567890123456\<close> is valid and resolves to Enterprise;
  \<open>FREE_1234567890123456\<close> is invalid and resolves to Free. In general \<open>validateKey\<close>
  accepts exactly the credentials that start with \<open>PRO_\<close> or \<open>ENT_\<close> and are at least
  20 bytes long.
\<close>

theorem C5_tier_resolution:
  "resolveTier (Initialize [] t None) = (FreeTier, 5, 1000) \<and>
   length ''PRO_1234567890123456'' = 20 \<and>
   validateKey ''PRO_1234567890123456'' \<and>
   Tier (Initialize ''PRO_1234567890123456'' t None) = ProTier \<and>
   \<not> validateKey ''PRO_123'' \<and>
   Tier (Initialize ''PRO_123'' t None) = FreeTier \<and>
   validateKey ''ENT_1234567890123456'' \<and>
   Tier (Initialize ''ENT_1234567890123456'' t None) = EnterpriseTier \<and>
   \<not> validateKey ''FREE_1234567890123456'' \<and>
   Tier (Initialize ''FREE_1234567890123456'' t None) = FreeTier \<and>
   (validateKey key \<longleftrightarrow>
      (HasPrefix key ''PRO_'' \<or> HasPrefix key ''ENT_'') \<and> 20 \<le> length key)"
proof -
  have general: "validateKey key \<longleftrightarrow>
      (HasPrefix key ''PRO_'' \<or> HasPrefix key ''ENT_'') \<and> 20 \<le> length key"
    by (rule validateKey_iff)
  have concrete: "validateKey ''PRO_1234567890123456''" "\<not> validateKey ''PRO_123''"
    "validateKey ''ENT_1234567890123456''" "\<not> validateKey ''FREE_1234567890123456''"
    by (simp_all add: validateKey_def HasPrefix_def)
  have tiers: "Tier (Initialize ''PRO_1234567890123456'' t None) = ProTier"
    "Tier (Initialize ''PRO_123'' t None) = FreeTier"
    "Tier (Initialize ''ENT_1234567890123456'' t None) = EnterpriseTier"
    "Tier (Initialize ''FREE_1234567890123456'' t None) = FreeTier"
    by (simp_all add: Initialize_def newLicense_def validateKey_def HasPrefix_def)
  have empty: "resolveTier (Initialize [] t None) = (FreeTier, 5, 1000)"
    by (simp add: Initialize_def resolveTier_newLicense validateKey_def HasPrefix_def)
  from general concrete tiers empty show ?thesis by simp
qed

text \<open>
  C6. \<open>GetMaxTokens\<close> leaves the object as it was, so it consumes no run, and returns
  1000 on the Free tier, 10000 on the Pro tier and the marker -1 on the Enterprise tier.
\<close>

theorem C6_GetMaxTokens_pure:
  "snd (GetMaxTokens l) = l \<and>
   DailyRuns (snd (GetMaxTokens l)) = DailyRuns l \<and>
   sint (fst (GetMaxTokens l)) =
     (case Tier l of FreeTier \<Rightarrow> 1000 | ProTier \<Rightarrow> 10000 | EnterpriseTier \<Rightarrow> - 1)"
  by (simp add: GetMaxTokens_def FreeMaxTokensPerRun_def ProMaxTokensPerRun_def
      EnterpriseMaxTokens_def split: Tier.split)

text \<open>
  C9. The triple of tier, run limit and token limit that a first initialisation resolves
  depends on the credential alone: two initialisations with the same credential, at any
  two clock readings, give the same triple, which is the one the table assigns.
\<close>

theorem C9_resolution_deterministic:
  "resolveTier (Initialize key t1 None) = resolveTier (Initialize key t2 None) \<and>
   resolveTier (Initialize key t1 None) =
     (if validateKey key
      then if HasPrefix key ''ENT_'' then (EnterpriseTier, - 1, - 1) else (ProTier, 100, 10000)
      else (FreeTier, 5, 1000))"
  by (simp add: Initialize_def resolveTier_newLicense)

text \<open>
  C10. \<open>CanRun\<close> changes no field but \<open>DailyRuns\<close> and \<open>LastReset\<close>; \<open>GetStatus\<close>,
  \<open>GetMaxTokens\<close> and \<open>GetTierName\<close> change no field at all; hence \<open>Tier\<close>, \<open>Key\<close> and
  \<open>MaxRuns\<close> are the same after any sequence of calls.
\<close>

theorem C10_frame:
  "Tier (snd (CanRun t1 t2 l)) = Tier l \<and>
   Key (snd (CanRun t1 t2 l)) = Key l \<and>
   MaxRuns (snd (CanRun t1 t2 l)) = MaxRuns l \<and>
   snd (CanRun t1 t2 l) =
     l\<lparr>DailyRuns := DailyRuns (snd (CanRun t1 t2 l)),
       LastReset := LastReset (snd (CanRun t1 t2 l))\<rparr> \<and>
   snd (GetStatus l) = l \<and> snd (GetMaxTokens l) = l \<and> snd (GetTierName l) = l \<and>
   Tier (run cs l) = Tier l \<and> Key (run cs l) = Key l \<and> MaxRuns (run cs l) = MaxRuns l"
proof -
  have "snd (CanRun t1 t2 l) =
     l\<lparr>DailyRuns := DailyRuns (snd (CanRun t1 t2 l)),
       LastReset := LastReset (snd (CanRun t1 t2 l))\<rparr>"
    by (simp add: CanRun_def Let_def)
  then show ?thesis
    using run_frame [of cs l]
    by (simp add: CanRun_Tier CanRun_Key CanRun_MaxRuns GetMaxTokens_snd GetTierName_snd
        GetStatus_snd)
qed

section \<open>The quota state machine\<close>

text \<open>
  C2 (as amended). When more than 24 hours have elapsed since \<open>LastReset\<close> at the call
  of \<open>CanRun\<close>, the counter is set to 0 and \<open>LastReset\<close> to the current time before the
  limit is checked: an Enterprise licence is allowed and ends with the counter at 1;
  otherwise a limit of 0 or less denies, reporting 0 runs and leaving the counter at 0;
  any other limit allows and ends with the counter at 1.
\<close>

theorem C2_reset_after_24h:
  assumes "24 * Hour < t1 - LastReset l"
  shows "CanRun t1 t2 l =
     (if Tier l = EnterpriseTier then ((True, []), l\<lparr>DailyRuns := 1, LastReset := t2\<rparr>)
      else if sint (MaxRuns l) \<le> 0
        then ((False, limit_message 0 (MaxRuns l)), l\<lparr>DailyRuns := 0, LastReset := t2\<rparr>)
      else ((True, []), l\<lparr>DailyRuns := 1, LastReset := t2\<rparr>))"
  using assms by (simp add: CanRun_def Since_gt Let_def)

text \<open>
  The theorem at the specification's example: a Free licence with its five runs used,
  one nanosecond past the 24 hours.
\<close>

theorem C2_reset_after_24h_witness:
  "24 * Hour < (24 * Hour + 1) -
      LastReset \<lparr>Tier = FreeTier, Key = [], DailyRuns = 5, MaxRuns = 5, LastReset = 0\<rparr> \<and>
   CanRun (24 * Hour + 1) (24 * Hour + 2)
      \<lparr>Tier = FreeTier, Key = [], DailyRuns = 5, MaxRuns = 5, LastReset = 0\<rparr> =
     ((True, []),
      \<lparr>Tier = FreeTier, Key = [], DailyRuns = 1, MaxRuns = 5, LastReset = 24 * Hour + 2\<rparr>)"
  using C2_reset_after_24h [of "24 * Hour + 1"
      "\<lparr>Tier = FreeTier, Key = [], DailyRuns = 5, MaxRuns = 5, LastReset = 0\<rparr>" "24 * Hour + 2"]
  by simp

text \<open>
  C2 as stated includes an elapsed time of exactly 24 hours. The test of \<open>CanRun\<close> is
  strict: at exactly 24 hours the exhausted Free licence is not reset and the call is
  denied.
\<close>

theorem C2_exactly_24h_counterexample:
  "24 * Hour \<le> 24 * Hour -
      LastReset \<lparr>Tier = FreeTier, Key = [], DailyRuns = 5, MaxRuns = 5, LastReset = 0\<rparr> \<and>
   CanRun (24 * Hour) (24 * Hour)
      \<lparr>Tier = FreeTier, Key = [], DailyRuns = 5, MaxRuns = 5, LastReset = 0\<rparr> =
     ((False,
       ''Daily limit reached (5/5 runs). Upgrade at https://bakerstreetproject221B.store/pricing''),
      \<lparr>Tier = FreeTier, Key = [], DailyRuns = 5, MaxRuns = 5, LastReset = 0\<rparr>)"
  by (simp add: CanRun_def Since_gt limit_message_5)

text \<open>
  C3. On a freshly initialised Free licence, with every call made no later than 24 hours
  after initialisation, the calls numbered 0 to 4 are allowed and every later call is
  denied with the message naming 5 runs used, the limit 5 and the pricing address. After
  \<open>n\<close> calls the counter is \<open>min 5 n\<close>: each allowed call adds one and a denied call
  leaves it as it was.
\<close>

theorem C3_free_tier_exhaustion:
  assumes "Tier (Initialize key t0 None) = FreeTier"
    and "\<forall>t\<in>set ts. fst t - t0 \<le> 24 * Hour"
  shows "CanRuns ts (Initialize key t0 None) =
     (map (\<lambda>i. if i < 5 then (True, [])
                else (False, ''Daily limit reached (5/5 runs). Upgrade at https://bakerstreetproject221B.store/pricing''))
        [0..<length ts],
      (Initialize key t0 None)\<lparr>DailyRuns := of_nat (min 5 (length ts))\<rparr>)"
proof -
  let ?l = "Initialize key t0 None"
  have eq: "resolveTier ?l =
     (if validateKey key
      then if HasPrefix key ''ENT_'' then (EnterpriseTier, - 1, - 1) else (ProTier, 100, 10000)
      else (FreeTier, 5, 1000))"
    by (simp add: Initialize_def resolveTier_newLicense)
  have "fst (resolveTier ?l) = FreeTier"
    using assms(1) by (simp add: resolveTier_def)
  with eq have "\<not> validateKey key"
    by (auto split: if_splits)
  with eq have "resolveTier ?l = (FreeTier, 5, 1000)" by simp
  then have m: "MaxRuns ?l = 5" by (simp add: resolveTier_def)
  have d: "DailyRuns ?l = of_nat 0" and r: "LastReset ?l = t0"
    by (simp_all add: Initialize_def newLicense_def Let_def)
  have "CanRuns ts ?l =
     (map (\<lambda>i. if 0 + i < 5 then (True, []) else (False, limit_message 5 5)) [0..<length ts],
      ?l\<lparr>DailyRuns := of_nat (min 5 (0 + length ts))\<rparr>)"
    using assms m d r by (intro CanRuns_free) simp_all
  then show ?thesis by (simp add: limit_message_5)
qed

text \<open>Seven calls within the period: five allowed, two denied, the counter at 5.\<close>

theorem C3_free_tier_exhaustion_witness:
  "Tier (Initialize [] 0 None) = FreeTier \<and>
   CanRuns [(0, 0), (1, 1), (2, 2), (3, 3), (4, 4), (5, 5), (24 * Hour, 24 * Hour)]
      (Initialize [] 0 None) =
     ([(True, []), (True, []), (True, []), (True, []), (True, []),
       (False, ''Daily limit reached (5/5 runs). Upgrade at https://bakerstreetproject221B.store/pricing''),
       (False, ''Daily limit reached (5/5 runs). Upgrade at https://bakerstreetproject221B.store/pricing'')],
      \<lparr>Tier = FreeTier, Key = [], DailyRuns = 5, MaxRuns = 5, LastReset = 0\<rparr>)"
proof -
  have t: "Tier (Initialize [] 0 None) = FreeTier"
    by (simp add: Initialize_def newLicense_def)
  have p: "\<forall>t\<in>set [(0, 0), (1, 1), (2, 2), (3, 3), (4, 4), (5, 5), (24 * Hour, 24 * Hour)].
      fst t - 0 \<le> 24 * Hour"
    by (simp add: Hour_def)
  have l: "Initialize [] 0 None =
      \<lparr>Tier = FreeTier, Key = [], DailyRuns = 0, MaxRuns = 5, LastReset = 0\<rparr>"
    by (simp add: Initialize_def newLicense_def FreeMaxRunsPerDay_def)
  have u: "[0..<7] = [0, 1, 2, 3, 4, 5, 6]"
    by (simp add: upt_rec)
  show ?thesis
    using C3_free_tier_exhaustion [OF t p] t by (simp add: l u)
qed

text \<open>
  C4. On an Enterprise licence every \<open>CanRun\<close> call is allowed and adds 1 (Go's \<open>++\<close>
  on an \<open>int\<close>) to the counter, after the reset when one is due; any number of
  consecutive calls are all allowed, and within one period the counter grows by their
  number.
\<close>

theorem C4_enterprise_unbounded:
  assumes "Tier l = EnterpriseTier"
  shows "fst (CanRun t1 t2 l) = (True, []) \<and>
     DailyRuns (snd (CanRun t1 t2 l)) =
       (if 24 * Hour < t1 - LastReset l then 0 else DailyRuns l) + 1 \<and>
     fst (CanRuns ts l) = replicate (length ts) (True, []) \<and>
     ((\<forall>t\<in>set ts. fst t - LastReset l \<le> 24 * Hour) \<longrightarrow>
        DailyRuns (snd (CanRuns ts l)) = DailyRuns l + of_nat (length ts))"
  using assms
  by (simp add: CanRun_enterprise CanRuns_enterprise CanRuns_enterprise_count)

text \<open>The test of check_test.go: 1000 calls on a fresh Enterprise licence.\<close>

theorem C4_enterprise_unbounded_witness:
  "Tier (Initialize ''ENT_1234567890123456'' 0 None) = EnterpriseTier \<and>
   fst (CanRuns (replicate 1000 (0, 0)) (Initialize ''ENT_1234567890123456'' 0 None)) =
     replicate 1000 (True, []) \<and>
   sint (DailyRuns (snd (CanRuns (replicate 1000 (0, 0))
     (Initialize ''ENT_1234567890123456'' 0 None)))) = 1000"
proof -
  let ?l = "Initialize ''ENT_1234567890123456'' 0 None"
  have t: "Tier ?l = EnterpriseTier"
    by (simp add: Initialize_def newLicense_def validateKey_def HasPrefix_def)
  have d: "DailyRuns ?l = 0" and r: "LastReset ?l = 0"
    by (simp_all add: Initialize_def newLicense_def Let_def)
  have p: "\<forall>t\<in>set (replicate 1000 (0, 0)). fst t - LastReset ?l \<le> 24 * Hour"
    by (simp add: r Hour_def)
  from C4_enterprise_unbounded [OF t, of 0 0 "replicate 1000 (0, 0)"] p
  have "fst (CanRuns (replicate 1000 (0, 0)) ?l) = replicate 1000 (True, [])"
    and "DailyRuns (snd (CanRuns (replicate 1000 (0, 0)) ?l)) = 1000"
    by (simp_all add: d)
  with t show ?thesis by simp
qed



section \<open>The status line\<close>

text \<open>
  C1. \<open>GetStatus\<close> should report the counter as it is after a due reset. It reads no
  clock and applies no reset: on the Free licence that has used its five runs, 25 hours
  after the period began, it still reports 5 of 5 runs, while \<open>CanRun\<close> at that same
  time resets the counter to 0 and allows the run.
\<close>

theorem C1_status_keeps_stale_counter:
  "snd (CanRuns [(0, 0), (0, 0), (0, 0), (0, 0), (0, 0)] (Initialize [] 0 None)) =
     \<lparr>Tier = FreeTier, Key = [], DailyRuns = 5, MaxRuns = 5, LastReset = 0\<rparr> \<and>
   24 * Hour \<le> 25 * Hour -
     LastReset \<lparr>Tier = FreeTier, Key = [], DailyRuns = 5, MaxRuns = 5, LastReset = 0\<rparr> \<and>
   GetStatus \<lparr>Tier = FreeTier, Key = [], DailyRuns = 5, MaxRuns = 5, LastReset = 0\<rparr> =
     (''License: Free | Runs: 5/5 | Tokens/run: 1000'',
      \<lparr>Tier = FreeTier, Key = [], DailyRuns = 5, MaxRuns = 5, LastReset = 0\<rparr>) \<and>
   CanRun (25 * Hour) (25 * Hour)
      \<lparr>Tier = FreeTier, Key = [], DailyRuns = 5, MaxRuns = 5, LastReset = 0\<rparr> =
     ((True, []),
      \<lparr>Tier = FreeTier, Key = [], DailyRuns = 1, MaxRuns = 5, LastReset = 25 * Hour\<rparr>)"
proof -
  have a: "snd (CanRuns [(0, 0), (0, 0), (0, 0), (0, 0), (0, 0)] (Initialize [] 0 None)) =
     \<lparr>Tier = FreeTier, Key = [], DailyRuns = 5, MaxRuns = 5, LastReset = 0\<rparr>"
    by (simp add: Initialize_def newLicense_def FreeMaxRunsPerDay_def CanRun_def Since_def
        Hour_def maxDuration_def minDuration_def)
  have b: "24 * Hour \<le> 25 * Hour -
     LastReset \<lparr>Tier = FreeTier, Key = [], DailyRuns = 5, MaxRuns = 5, LastReset = 0\<rparr>"
    by (simp add: Hour_def)
  have c: "GetStatus \<lparr>Tier = FreeTier, Key = [], DailyRuns = 5, MaxRuns = 5, LastReset = 0\<rparr> =
     (''License: Free | Runs: 5/5 | Tokens/run: 1000'',
      \<lparr>Tier = FreeTier, Key = [], DailyRuns = 5, MaxRuns = 5, LastReset = 0\<rparr>)"
    by (simp add: GetStatus_def GetTierName_def GetMaxTokens_def FreeMaxTokensPerRun_def
        fmt_d_def digits.simps digit_def)
  have d: "CanRun (25 * Hour) (25 * Hour)
      \<lparr>Tier = FreeTier, Key = [], DailyRuns = 5, MaxRuns = 5, LastReset = 0\<rparr> =
     ((True, []),
      \<lparr>Tier = FreeTier, Key = [], DailyRuns = 1, MaxRuns = 5, LastReset = 25 * Hour\<rparr>)"
    by (simp add: CanRun_def Since_def Hour_def maxDuration_def minDuration_def)
  from a b c d show ?thesis by (simp only: simp_thms)
qed

end
